theory Spec2Isabelle
  imports Complex_Main
begin

section \<open>Zenith: the conversation store and the message dispatcher\<close>

text \<open>
  A shallow embedding of \<^verbatim>\<open>src/context/ZenithContext.tsx\<close>: the reducer of the
  conversation store, the start-up rehydration, the two persistence effects and
  \<^verbatim>\<open>sendMessage\<close>.

  A JavaScript string is modelled as a \<^typ>\<open>string\<close>, one \<^typ>\<open>char\<close> for each code unit;
  \<^verbatim>\<open>slice(0, 30)\<close> is \<^term>\<open>take 30\<close>.
\<close>

subsection \<open>Data model\<close>

text \<open>
  A \<^verbatim>\<open>Date\<close> object holds a time value, a whole number of milliseconds since the epoch, or
  is the Invalid Date (time value NaN). \<^verbatim>\<open>new Date()\<close> is always a \<open>TimeValue\<close>.
\<close>

datatype Date = TimeValue int | InvalidDate

datatype Role = User | Assistant

text \<open>
  Modelled from the spec: the declarations \<^verbatim>\<open>Message\<close>, \<^verbatim>\<open>Conversation\<close> and
  \<^verbatim>\<open>ZenithState\<close> of \<^verbatim>\<open>../types\<close> are not among the sources. The fields are the ones
  of the spec's data model, under the names the context file reads and writes. The two
  \<^verbatim>\<open>id\<close> and the two \<^verbatim>\<open>createdAt\<close> fields carry the record's name, since a theory has
  one name space for fields.
\<close>

record Message =
  message_id :: string
  role :: Role
  content :: string
  message_createdAt :: Date

record Conversation =
  conversation_id :: string
  title :: string
  messages :: "Message list"
  createdAt :: Date
  updatedAt :: Date

text \<open>\<^verbatim>\<open>activeConversationId\<close> is \<^verbatim>\<open>string | null\<close>: \<open>None\<close> is \<^verbatim>\<open>null\<close>.\<close>

record ZenithState =
  conversations :: "Conversation list"
  activeConversationId :: "string option"
  apiKey :: string
  loading :: bool

datatype ZenithAction =
    SET_CONVERSATIONS "Conversation list"
  | SET_ACTIVE_CONVERSATION string
  | CREATE_CONVERSATION Conversation
  | ADD_MESSAGE string Message
  | CLEAR_CONVERSATION
  | SET_API_KEY string
  | SET_LOADING bool

text \<open>
  Truthiness of a \<^verbatim>\<open>string | null\<close>: \<^verbatim>\<open>null\<close> and the empty string are falsy.
\<close>

fun truthy :: "string option \<Rightarrow> bool" where
  "truthy None = False"
| "truthy (Some s) = (s \<noteq> [])"

text \<open>
  \<^verbatim>\<open>initialState\<close>; the argument is \<^verbatim>\<open>import.meta.env.VITE_GEMINI_API_KEY\<close>, \<open>None\<close>
  when the variable is not defined.
\<close>

definition initialState :: "string option \<Rightarrow> ZenithState" where
  "initialState env_key =
     \<lparr> conversations = [],
       activeConversationId = None,
       apiKey = (case env_key of None \<Rightarrow> [] | Some key \<Rightarrow> key),
       loading = False \<rparr>"

subsection \<open>The reducer\<close>

definition default_title :: string where
  "default_title = ''New conversation''"

text \<open>
  The callback of \<^verbatim>\<open>map\<close> in the \<^verbatim>\<open>ADD_MESSAGE\<close> case. \<open>now\<close> is the value of
  \<^verbatim>\<open>new Date()\<close>.
\<close>

definition add_to_conversation :: "Date \<Rightarrow> string \<Rightarrow> Message \<Rightarrow> Conversation \<Rightarrow> Conversation" where
  "add_to_conversation now conversationId message conversation =
     (if conversation_id conversation = conversationId then
        (let updatedMessages = messages conversation @ [message] in
         conversation
           \<lparr> messages := updatedMessages,
             updatedAt := now,
             title := (if title conversation = default_title \<and> length updatedMessages = 1
                       then take 30 (content message) @ ''...''
                       else title conversation) \<rparr>)
      else conversation)"

text \<open>The callback of \<^verbatim>\<open>map\<close> in the \<^verbatim>\<open>CLEAR_CONVERSATION\<close> case.\<close>

definition clear_conversation :: "Date \<Rightarrow> string option \<Rightarrow> Conversation \<Rightarrow> Conversation" where
  "clear_conversation now active conversation =
     (if Some (conversation_id conversation) = active
      then conversation \<lparr> messages := [], updatedAt := now \<rparr>
      else conversation)"

text \<open>
  \<^verbatim>\<open>zenithReducer\<close>. The reducer reads the clock (\<^verbatim>\<open>new Date()\<close>) in two of its cases; the
  first argument is the clock's value when the reducer runs.
\<close>

fun zenithReducer :: "Date \<Rightarrow> ZenithState \<Rightarrow> ZenithAction \<Rightarrow> ZenithState" where
  "zenithReducer now state (SET_CONVERSATIONS payload) =
     state \<lparr> conversations := payload \<rparr>"
| "zenithReducer now state (SET_ACTIVE_CONVERSATION payload) =
     state \<lparr> activeConversationId := Some payload \<rparr>"
| "zenithReducer now state (CREATE_CONVERSATION payload) =
     (let newConversations = conversations state @ [payload] in
      state \<lparr> conversations := newConversations,
              activeConversationId := Some (conversation_id payload) \<rparr>)"
| "zenithReducer now state (ADD_MESSAGE conversationId message) =
     (let updatedConversations =
            map (add_to_conversation now conversationId message) (conversations state) in
      state \<lparr> conversations := updatedConversations \<rparr>)"
| "zenithReducer now state CLEAR_CONVERSATION =
     (if \<not> truthy (activeConversationId state) then state
      else
        (let updatedConversations =
               map (clear_conversation now (activeConversationId state)) (conversations state) in
         state \<lparr> conversations := updatedConversations \<rparr>))"
| "zenithReducer now state (SET_API_KEY payload) =
     state \<lparr> apiKey := payload \<rparr>"
| "zenithReducer now state (SET_LOADING payload) =
     state \<lparr> loading := payload \<rparr>"

text \<open>
  The store's operations, each one dispatch. The clock is passed to every one of them,
  as to the reducer; only \<^verbatim>\<open>ADD_MESSAGE\<close> and \<^verbatim>\<open>CLEAR_CONVERSATION\<close> read it.
\<close>

definition clearConversation :: "Date \<Rightarrow> ZenithState \<Rightarrow> ZenithState" where
  "clearConversation now state = zenithReducer now state CLEAR_CONVERSATION"

definition setActiveConversation :: "Date \<Rightarrow> string \<Rightarrow> ZenithState \<Rightarrow> ZenithState" where
  "setActiveConversation now ident state =
     zenithReducer now state (SET_ACTIVE_CONVERSATION ident)"

definition setApiKey :: "Date \<Rightarrow> string \<Rightarrow> ZenithState \<Rightarrow> ZenithState" where
  "setApiKey now key state = zenithReducer now state (SET_API_KEY key)"

definition appendMessage :: "Date \<Rightarrow> string \<Rightarrow> Message \<Rightarrow> ZenithState \<Rightarrow> ZenithState" where
  "appendMessage now conversationId message state =
     zenithReducer now state (ADD_MESSAGE conversationId message)"

text \<open>
  \<^verbatim>\<open>createNewConversation\<close>: \<open>ident\<close> is the value of \<^verbatim>\<open>nanoid()\<close>, \<open>created\<close> and
  \<open>updated\<close> are the time values of its two \<^verbatim>\<open>new Date()\<close>.
\<close>

definition createNewConversation :: "string \<Rightarrow> int \<Rightarrow> int \<Rightarrow> ZenithState \<Rightarrow> ZenithState" where
  "createNewConversation ident created updated state =
     (let newConversation =
            \<lparr> conversation_id = ident,
              title = default_title,
              messages = [],
              createdAt = TimeValue created,
              updatedAt = TimeValue updated \<rparr> in
      zenithReducer (TimeValue updated) state (CREATE_CONVERSATION newConversation))"

text \<open>
  A call of \<^verbatim>\<open>appendMessage\<close>: the clock's value when its reducer runs, the conversation
  id and the message.
\<close>

type_synonym AppendCall = "Date \<times> string \<times> Message"

text \<open>
  A sequence of calls, run in order on the store: how many of them change the title of
  the conversation at position \<open>i\<close>.
\<close>

fun title_changes :: "nat \<Rightarrow> AppendCall list \<Rightarrow> ZenithState \<Rightarrow> nat" where
  "title_changes i [] state = 0"
| "title_changes i ((now, conversationId, message) # calls) state =
     (if title (conversations (appendMessage now conversationId message state) ! i)
           \<noteq> title (conversations state ! i)
      then 1 else 0)
     + title_changes i calls (appendMessage now conversationId message state)"

subsection \<open>The message dispatcher\<close>

text \<open>
  What \<^verbatim>\<open>sendMessage\<close> hands to \<^verbatim>\<open>fetch\<close>: the URL, the two headers and the fields of the
  JSON body.
\<close>

record Request =
  url :: string
  authorization :: string
  content_type :: string
  model :: string
  transcript :: "(Role \<times> string) list"
  temperature :: rat
  max_tokens :: nat

text \<open>
  A thrown value: an instance of \<^verbatim>\<open>Error\<close> with its \<^verbatim>\<open>message\<close> (a \<^verbatim>\<open>TypeError\<close> and a
  \<^verbatim>\<open>SyntaxError\<close> are instances of it), or any other value.
\<close>

datatype Thrown = ErrorObject string | OtherValue

text \<open>
  The parsed body of a response, as far as \<^verbatim>\<open>sendMessage\<close> reads it:
  \<open>error_message\<close> is \<^verbatim>\<open>data.error?.message\<close> (\<open>None\<close> when undefined), \<open>choices\<close> holds
  \<^verbatim>\<open>message.content\<close> of each element of \<^verbatim>\<open>data.choices\<close>; a body without choices has the
  empty list, and reading \<^verbatim>\<open>data.choices[0].message\<close> there throws a \<^verbatim>\<open>TypeError\<close>.
\<close>

record ResponseData =
  error_message :: "string option"
  choices :: "string list"

text \<open>
  The outcome of \<^verbatim>\<open>await fetch(...)\<close> followed by \<^verbatim>\<open>await response.json()\<close>: one of the two
  promises rejects, or there is a response with its \<^verbatim>\<open>ok\<close> flag and its parsed body.
\<close>

datatype FetchResult = Rejected Thrown | Responded bool ResponseData

text \<open>
  Everything \<^verbatim>\<open>sendMessage\<close> takes from outside the store: the two configuration variables,
  the remote endpoint, the text of the engine's \<^verbatim>\<open>TypeError\<close>, the results of the three calls
  of \<^verbatim>\<open>nanoid()\<close> and the clock's time values, in the order of the source: the two of
  \<^verbatim>\<open>createNewConversation\<close>, the user message's \<^verbatim>\<open>createdAt\<close>, the reducer adding the user
  message, the second message's \<^verbatim>\<open>createdAt\<close>, the reducer adding it.
\<close>

record World =
  VITE_GEMINI_API_URL :: string
  VITE_GEMINI_MODEL :: string
  fetch :: "Request \<Rightarrow> FetchResult"
  type_error_text :: string
  conversation_nanoid :: string
  user_nanoid :: string
  reply_nanoid :: string
  conversation_created :: int
  conversation_updated :: int
  user_created :: int
  user_added :: int
  reply_created :: int
  reply_added :: int

datatype Completion = Returned | Threw Thrown

text \<open>
  \<^verbatim>\<open>state.activeConversationId || state.conversations[state.conversations.length - 1].id\<close>,
  read from the state the function closed over. On an empty list the element is
  \<^verbatim>\<open>undefined\<close> and reading its \<^verbatim>\<open>id\<close> throws a \<^verbatim>\<open>TypeError\<close>.
\<close>

definition lastConversationId :: "World \<Rightarrow> ZenithState \<Rightarrow> Thrown + string" where
  "lastConversationId w state =
     (case conversations state of
        [] \<Rightarrow> Inl (ErrorObject (type_error_text w))
      | _ # _ \<Rightarrow> Inr (conversation_id (last (conversations state))))"

definition resolveConversationId :: "World \<Rightarrow> ZenithState \<Rightarrow> Thrown + string" where
  "resolveConversationId w state =
     (case activeConversationId state of
        None \<Rightarrow> lastConversationId w state
      | Some active \<Rightarrow> if active \<noteq> [] then Inr active else lastConversationId w state)"

definition buildRequest :: "World \<Rightarrow> ZenithState \<Rightarrow> Conversation \<Rightarrow> string \<Rightarrow> Request" where
  "buildRequest w state activeConversation text =
     \<lparr> url = VITE_GEMINI_API_URL w,
       authorization = ''Bearer '' @ apiKey state,
       content_type = ''application/json'',
       model = VITE_GEMINI_MODEL w,
       transcript = map (\<lambda>m. (role m, content m)) (messages activeConversation) @ [(User, text)],
       temperature = 7 / 10,
       max_tokens = 1000 \<rparr>"

text \<open>
  The body of the \<^verbatim>\<open>try\<close> block: \<open>Inl\<close> is the value it throws, \<open>Inr None\<close> its early
  \<^verbatim>\<open>return\<close> when no conversation of the closed-over state has the resolved id,
  \<open>Inr (Some text)\<close> the content of the assistant message it dispatches.
\<close>

definition requestReply :: "World \<Rightarrow> ZenithState \<Rightarrow> string \<Rightarrow> string \<Rightarrow> Thrown + string option" where
  "requestReply w state conversationId text =
     (if apiKey state = [] then
        Inl (ErrorObject ''Please set your Gemini API key in the settings'')
      else
        (case find (\<lambda>c. conversation_id c = conversationId) (conversations state) of
           None \<Rightarrow> Inr None
         | Some activeConversation \<Rightarrow>
             (case fetch w (buildRequest w state activeConversation text) of
                Rejected thrown \<Rightarrow> Inl thrown
              | Responded ok data \<Rightarrow>
                  if \<not> ok then
                    Inl (ErrorObject
                      (case error_message data of
                         None \<Rightarrow> ''Failed to get response from Gemini API''
                       | Some message \<Rightarrow>
                           if message \<noteq> [] then message
                           else ''Failed to get response from Gemini API''))
                  else
                    (case choices data of
                       [] \<Rightarrow> Inl (ErrorObject (type_error_text w))
                     | first # _ \<Rightarrow> Inr (Some first)))))"

text \<open>
  The content of the message the \<^verbatim>\<open>catch\<close> block builds.
\<close>

definition errorContent :: "Thrown \<Rightarrow> string" where
  "errorContent error =
     ''Error: '' @ (case error of ErrorObject message \<Rightarrow> message
                                | OtherValue \<Rightarrow> ''Unknown error occurred'')"

text \<open>
  \<^verbatim>\<open>sendMessage\<close>. The function reads the state of the render that created it (\<open>state\<close>);
  its dispatches act on the store, which holds that same state when the function is
  called and is threaded through here as \<open>store1\<close>, \<open>store2\<close>, ... A dispatch does not
  change what \<open>state\<close> denotes. The result is how the call completes, and the store after
  the dispatches made up to there.
\<close>

definition sendMessage :: "World \<Rightarrow> ZenithState \<Rightarrow> string \<Rightarrow> Completion \<times> ZenithState" where
  "sendMessage w state text =
     (let store1 =
            (if \<not> truthy (activeConversationId state)
             then createNewConversation (conversation_nanoid w) (conversation_created w)
                    (conversation_updated w) state
             else state) in
      case resolveConversationId w state of
        Inl thrown \<Rightarrow> (Threw thrown, store1)
      | Inr conversationId \<Rightarrow>
          (let userMessage =
                 \<lparr> message_id = user_nanoid w, role = User, content = text,
                   message_createdAt = TimeValue (user_created w) \<rparr>;
               store2 = zenithReducer (TimeValue (user_added w)) store1
                          (ADD_MESSAGE conversationId userMessage);
               store3 = zenithReducer (TimeValue (user_added w)) store2 (SET_LOADING True);
               store4 =
                 (case requestReply w state conversationId text of
                    Inr None \<Rightarrow> store3
                  | Inr (Some reply) \<Rightarrow>
                      (let assistantMessage =
                             \<lparr> message_id = reply_nanoid w, role = Assistant, content = reply,
                               message_createdAt = TimeValue (reply_created w) \<rparr> in
                       zenithReducer (TimeValue (reply_added w)) store3
                         (ADD_MESSAGE conversationId assistantMessage))
                  | Inl error \<Rightarrow>
                      (let errorMessage =
                             \<lparr> message_id = reply_nanoid w, role = Assistant,
                               content = errorContent error,
                               message_createdAt = TimeValue (reply_created w) \<rparr> in
                       zenithReducer (TimeValue (reply_added w)) store3
                         (ADD_MESSAGE conversationId errorMessage)));
               store5 = zenithReducer (TimeValue (reply_added w)) store4 (SET_LOADING False)
           in (Returned, store5)))"

subsection \<open>Dates as text\<close>

text \<open>
  \<^verbatim>\<open>JSON.stringify\<close> writes a \<^verbatim>\<open>Date\<close> through \<^verbatim>\<open>toISOString\<close>, and \<^verbatim>\<open>new Date(text)\<close>
  reads it back. Both are functions of the platform; they are modelled here on the
  proleptic Gregorian calendar in UTC, as ECMAScript defines them.

  \<open>pad k n\<close> is \<open>n\<close> in \<open>k\<close> decimal digits; \<open>number 0 s\<close> is the value of a text of digits.
\<close>

definition digit_char :: "nat \<Rightarrow> char" where
  "digit_char n = ''0123456789'' ! n"

definition digit_value :: "char \<Rightarrow> nat option" where
  "digit_value c =
     map_of [(CHR ''0'', 0), (CHR ''1'', 1), (CHR ''2'', 2), (CHR ''3'', 3), (CHR ''4'', 4),
             (CHR ''5'', 5), (CHR ''6'', 6), (CHR ''7'', 7), (CHR ''8'', 8), (CHR ''9'', 9)] c"

fun pad :: "nat \<Rightarrow> nat \<Rightarrow> string" where
  "pad 0 n = []"
| "pad (Suc k) n = pad k (n div 10) @ [digit_char (n mod 10)]"

fun number :: "nat \<Rightarrow> string \<Rightarrow> nat option" where
  "number acc [] = Some acc"
| "number acc (c # cs) =
     (case digit_value c of None \<Rightarrow> None | Some d \<Rightarrow> number (10 * acc + d) cs)"

text \<open>
  The day number (days since 1970-01-01) as year, month (1 to 12) and day of the month.
  The count starts at 0000-03-01, so that a leap day ends its year; 146097, 36524, 1461
  and 365 are the days of 400, 100, 4 and 1 years.
\<close>

definition civil_from_days :: "int \<Rightarrow> int \<times> int \<times> int" where
  "civil_from_days day =
     (let z = day + 719468;
          n400 = z div 146097;
          r400 = z mod 146097;
          n100 = min 3 (r400 div 36524);
          r100 = r400 - 36524 * n100;
          n4 = r100 div 1461;
          r4 = r100 mod 1461;
          n1 = min 3 (r4 div 365);
          r1 = r4 - 365 * n1;
          mp = (5 * r1 + 2) div 153;
          d = r1 - (153 * mp + 2) div 5 + 1;
          m = (if mp < 10 then mp + 3 else mp - 9);
          y = 400 * n400 + 100 * n100 + 4 * n4 + n1 + (if m \<le> 2 then 1 else 0)
      in (y, m, d))"

text \<open>The day number of a year, month and day of the month.\<close>

definition days_from_civil :: "int \<Rightarrow> int \<Rightarrow> int \<Rightarrow> int" where
  "days_from_civil y m d =
     (let y' = (if m \<le> 2 then y - 1 else y);
          era = y' div 400;
          yoe = y' mod 400;
          mp = (if m > 2 then m - 3 else m + 9);
          doy = (153 * mp + 2) div 5 + d - 1;
          doe = 365 * yoe + yoe div 4 - yoe div 100 + doy
      in 146097 * era + doe - 719468)"

text \<open>
  The year of \<^verbatim>\<open>toISOString\<close>: four digits from 0 to 9999, a sign and six digits otherwise.
\<close>

definition year_text :: "int \<Rightarrow> string" where
  "year_text y =
     (if 0 \<le> y \<and> y \<le> 9999 then pad 4 (nat y)
      else (if y < 0 then ''-'' else ''+'') @ pad 6 (nat \<bar>y\<bar>))"

text \<open>\<^verbatim>\<open>toISOString\<close> of a time value: \<^verbatim>\<open>YYYY-MM-DDTHH:mm:ss.sssZ\<close>.\<close>

definition toISOString :: "int \<Rightarrow> string" where
  "toISOString t =
     (let ms = nat (t mod 86400000) in
      case civil_from_days (t div 86400000) of
        (y, m, d) \<Rightarrow>
          year_text y @ ''-'' @ pad 2 (nat m) @ ''-'' @ pad 2 (nat d) @ ''T''
          @ pad 2 (ms div 3600000) @ '':'' @ pad 2 (ms div 60000 mod 60) @ '':''
          @ pad 2 (ms div 1000 mod 60) @ ''.'' @ pad 3 (ms mod 1000) @ ''Z'')"

text \<open>The time values a \<^verbatim>\<open>Date\<close> can hold: 100 million days on either side of the epoch.\<close>

definition in_range :: "int \<Rightarrow> bool" where
  "in_range t = (\<bar>t\<bar> \<le> 8640000000000000)"

definition timeClip :: "int \<Rightarrow> Date" where
  "timeClip t = (if in_range t then TimeValue t else InvalidDate)"

text \<open>
  Every \<^verbatim>\<open>Date\<close> object is the Invalid Date or holds a time value in that range
  (\<open>date_ok\<close>); it denotes an instant in the second case (\<open>instant\<close>).
\<close>

definition date_ok :: "Date \<Rightarrow> bool" where
  "date_ok d = (case d of TimeValue t \<Rightarrow> in_range t | InvalidDate \<Rightarrow> True)"

definition instant :: "Date \<Rightarrow> bool" where
  "instant d = (case d of TimeValue t \<Rightarrow> in_range t | InvalidDate \<Rightarrow> False)"

text \<open>
  The text after the year: \<^verbatim>\<open>-MM-DDTHH:mm:ss.sssZ\<close>, twenty characters. \<open>None\<close> is for a
  text that is not of this form.
\<close>

definition parse_after_year :: "int \<Rightarrow> string \<Rightarrow> Date option" where
  "parse_after_year y s =
     (if length s = 20 \<and> s ! 0 = CHR ''-'' \<and> s ! 3 = CHR ''-'' \<and> s ! 6 = CHR ''T''
         \<and> s ! 9 = CHR '':'' \<and> s ! 12 = CHR '':'' \<and> s ! 15 = CHR ''.'' \<and> s ! 19 = CHR ''Z''
      then
        (case (number 0 (take 2 (drop 1 s)), number 0 (take 2 (drop 4 s)),
               number 0 (take 2 (drop 7 s)), number 0 (take 2 (drop 10 s)),
               number 0 (take 2 (drop 13 s)), number 0 (take 3 (drop 16 s))) of
           (Some m, Some d, Some hh, Some mm, Some ss, Some sss) \<Rightarrow>
             if 1 \<le> m \<and> m \<le> 12 \<and> 1 \<le> d \<and> d \<le> 31 \<and> hh \<le> 23 \<and> mm \<le> 59 \<and> ss \<le> 59
             then Some (timeClip
                    (86400000 * days_from_civil y (int m) (int d)
                     + int (3600000 * hh + 60000 * mm + 1000 * ss + sss)))
             else None
         | _ \<Rightarrow> None)
      else None)"

text \<open>
  \<^verbatim>\<open>new Date(text)\<close> for a text in the form \<^verbatim>\<open>toISOString\<close> writes. \<open>None\<close> is for any
  other text: what an engine reads from it is not modelled.
\<close>

definition parseDate :: "string \<Rightarrow> Date option" where
  "parseDate s =
     (case s of
        [] \<Rightarrow> None
      | c # rest \<Rightarrow>
          if c = CHR ''+'' \<or> c = CHR ''-'' then
            (case number 0 (take 6 rest) of
               None \<Rightarrow> None
             | Some y \<Rightarrow>
                 if length rest < 6 \<or> (c = CHR ''-'' \<and> y = 0) then None
                 else parse_after_year (if c = CHR ''-'' then - int y else int y) (drop 6 rest))
          else
            (case number 0 (take 4 s) of
               None \<Rightarrow> None
             | Some y \<Rightarrow> if length s < 4 then None else parse_after_year (int y) (drop 4 s)))"

subsection \<open>The durable store\<close>

text \<open>
  A JSON value. \<^verbatim>\<open>JSON.parse (JSON.stringify v)\<close> is modelled in one step, as the tree
  that \<^verbatim>\<open>JSON.parse\<close> returns; the text between the two is not modelled.
\<close>

datatype json =
    JNull
  | JBool bool
  | JNumber rat
  | JString string
  | JArray "json list"
  | JObject "(string \<times> json) list"

text \<open>
  \<^verbatim>\<open>localStorage\<close>, with the two items the program uses: \<^verbatim>\<open>zenith-conversations\<close>, a JSON
  text held here as its tree, and \<^verbatim>\<open>zenith-api-key\<close>. \<open>None\<close> is an absent item.
\<close>

record LocalStorage =
  zenith_conversations :: "json option"
  zenith_api_key :: "string option"

text \<open>
  \<^verbatim>\<open>JSON.stringify(state.conversations)\<close>: a \<^verbatim>\<open>Date\<close> is written by its \<^verbatim>\<open>toJSON\<close>, which
  is \<^verbatim>\<open>toISOString\<close> for a time value and \<^verbatim>\<open>null\<close> for the Invalid Date.
\<close>

definition date_json :: "Date \<Rightarrow> json" where
  "date_json d = (case d of TimeValue t \<Rightarrow> JString (toISOString t) | InvalidDate \<Rightarrow> JNull)"

definition role_json :: "Role \<Rightarrow> json" where
  "role_json r = (case r of User \<Rightarrow> JString ''user'' | Assistant \<Rightarrow> JString ''assistant'')"

definition message_json :: "Message \<Rightarrow> json" where
  "message_json m =
     JObject [(''id'', JString (message_id m)), (''role'', role_json (role m)),
              (''content'', JString (content m)),
              (''createdAt'', date_json (message_createdAt m))]"

definition conversation_json :: "Conversation \<Rightarrow> json" where
  "conversation_json c =
     JObject [(''id'', JString (conversation_id c)), (''title'', JString (title c)),
              (''messages'', JArray (map message_json (messages c))),
              (''createdAt'', date_json (createdAt c)),
              (''updatedAt'', date_json (updatedAt c))]"

definition stringify :: "Conversation list \<Rightarrow> json" where
  "stringify cs = JArray (map conversation_json cs)"

text \<open>The two persistence effects.\<close>

definition saveConversations :: "ZenithState \<Rightarrow> LocalStorage \<Rightarrow> LocalStorage" where
  "saveConversations state storage =
     (if length (conversations state) > 0
      then storage \<lparr> zenith_conversations := Some (stringify (conversations state)) \<rparr>
      else storage)"

definition saveApiKey :: "ZenithState \<Rightarrow> LocalStorage \<Rightarrow> LocalStorage" where
  "saveApiKey state storage =
     (if apiKey state \<noteq> []
      then storage \<lparr> zenith_api_key := Some (apiKey state) \<rparr>
      else storage)"

text \<open>
  An effect runs after a render in which its dependency is not the value of the render
  before. \<^verbatim>\<open>state.conversations\<close> is an array, compared by identity: it is a new array after
  the actions below, and the same array after the others.
\<close>

fun replacesConversations :: "ZenithState \<Rightarrow> ZenithAction \<Rightarrow> bool" where
  "replacesConversations state (SET_CONVERSATIONS payload) = True"
| "replacesConversations state (CREATE_CONVERSATION payload) = True"
| "replacesConversations state (ADD_MESSAGE conversationId message) = True"
| "replacesConversations state CLEAR_CONVERSATION = truthy (activeConversationId state)"
| "replacesConversations state _ = False"

text \<open>
  One dispatch, the render it causes and the effects after that render.
\<close>

definition dispatch ::
  "Date \<Rightarrow> ZenithAction \<Rightarrow> ZenithState \<times> LocalStorage \<Rightarrow> ZenithState \<times> LocalStorage" where
  "dispatch now action = (\<lambda>(state, storage).
     (let state' = zenithReducer now state action;
          storage1 = (if replacesConversations state action
                      then saveConversations state' storage else storage);
          storage2 = (if apiKey state' \<noteq> apiKey state
                      then saveApiKey state' storage1 else storage1)
      in (state', storage2)))"

subsection \<open>Rehydration\<close>

text \<open>
  \<^verbatim>\<open>new Date(v)\<close> for a field of a stored object; \<open>None\<close> as the argument is an absent
  field (\<^verbatim>\<open>undefined\<close>). \<open>None\<close> as the result is for what \<^verbatim>\<open>JSON.stringify\<close> never writes
  for a \<^verbatim>\<open>Date\<close>, and is not modelled.
\<close>

fun newDate :: "json option \<Rightarrow> Date option" where
  "newDate None = Some InvalidDate"
| "newDate (Some JNull) = Some (TimeValue 0)"
| "newDate (Some (JString s)) = parseDate s"
| "newDate (Some _) = None"

definition field :: "string \<Rightarrow> json \<Rightarrow> json option" where
  "field k j = (case j of JObject kvs \<Rightarrow> map_of kvs k | _ \<Rightarrow> None)"

text \<open>
  The callbacks of the two \<^verbatim>\<open>map\<close> of the rehydration. The source spreads the stored object
  and replaces its dates. The result is \<open>None\<close> when the stored object is not a message
  (a conversation) as \<^verbatim>\<open>stringify\<close> writes one: the source then goes on with a value that is
  not of the declared type, or throws.
\<close>

definition parseMessage :: "json \<Rightarrow> Message option" where
  "parseMessage msg =
     (case (field ''id'' msg, field ''role'' msg, field ''content'' msg,
            newDate (field ''createdAt'' msg)) of
        (Some (JString i), Some (JString r), Some (JString c), Some created) \<Rightarrow>
          if r = ''user'' then
            Some \<lparr> message_id = i, role = User, content = c, message_createdAt = created \<rparr>
          else if r = ''assistant'' then
            Some \<lparr> message_id = i, role = Assistant, content = c, message_createdAt = created \<rparr>
          else None
      | _ \<Rightarrow> None)"

definition parseConversation :: "json \<Rightarrow> Conversation option" where
  "parseConversation convo =
     (case (field ''id'' convo, field ''title'' convo, field ''messages'' convo,
            newDate (field ''createdAt'' convo), newDate (field ''updatedAt'' convo)) of
        (Some (JString i), Some (JString t), Some (JArray msgs), Some created, Some updated) \<Rightarrow>
          (case those (map parseMessage msgs) of
             None \<Rightarrow> None
           | Some ms \<Rightarrow>
               Some \<lparr> conversation_id = i, title = t, messages = ms,
                      createdAt = created, updatedAt = updated \<rparr>)
      | _ \<Rightarrow> None)"

definition parseConversations :: "json \<Rightarrow> Conversation list option" where
  "parseConversations saved =
     (case saved of JArray convos \<Rightarrow> those (map parseConversation convos) | _ \<Rightarrow> None)"

text \<open>
  The effect that runs once at start-up, on the state of the first render. \<open>None\<close> when
  the stored conversations are not modelled (see above).
\<close>

definition rehydrate :: "Date \<Rightarrow> LocalStorage \<Rightarrow> ZenithState \<Rightarrow> ZenithState option" where
  "rehydrate now storage state =
     (let savedConversations = zenith_conversations storage;
          savedApiKey = zenith_api_key storage;
          loaded =
            (case savedConversations of
               None \<Rightarrow> Some state
             | Some saved \<Rightarrow>
                 (case parseConversations saved of
                    None \<Rightarrow> None
                  | Some parsedConversations \<Rightarrow>
                      (let state1 = zenithReducer now state (SET_CONVERSATIONS parsedConversations)
                       in case parsedConversations of
                            [] \<Rightarrow> Some state1
                          | first # _ \<Rightarrow>
                              Some (zenithReducer now state1
                                      (SET_ACTIVE_CONVERSATION (conversation_id first))))))
      in case loaded of
           None \<Rightarrow> None
         | Some state2 \<Rightarrow>
             if truthy savedApiKey
             then Some (zenithReducer now state2 (SET_API_KEY (the savedApiKey)))
             else Some state2)"

text \<open>
  What a date is after it was written and read back: the Invalid Date is written as
  \<^verbatim>\<open>null\<close>, and \<^verbatim>\<open>new Date(null)\<close> is the epoch. \<open>reloaded\<close> is a conversation with all
  its dates written and read back.
\<close>

definition revived :: "Date \<Rightarrow> Date" where
  "revived d = (case d of TimeValue t \<Rightarrow> TimeValue t | InvalidDate \<Rightarrow> TimeValue 0)"

definition reloaded :: "Conversation \<Rightarrow> Conversation" where
  "reloaded c =
     c \<lparr> messages := map (\<lambda>m. m \<lparr> message_createdAt := revived (message_createdAt m) \<rparr>)
                         (messages c),
         createdAt := revived (createdAt c),
         updatedAt := revived (updatedAt c) \<rparr>"

subsection \<open>Example states\<close>

text \<open>
  A store with two conversations, the first one active: it has one message and a derived
  title, the second is as \<^verbatim>\<open>createNewConversation\<close> leaves it.
\<close>

definition two_conversations :: ZenithState where
  "two_conversations =
     \<lparr> conversations =
         [ \<lparr> conversation_id = ''a'', title = ''hello...'',
             messages = [\<lparr> message_id = ''m1'', role = User, content = ''hello'',
                           message_createdAt = TimeValue 2 \<rparr>],
             createdAt = TimeValue 1, updatedAt = TimeValue 3 \<rparr>,
           \<lparr> conversation_id = ''b'', title = ''New conversation'', messages = [],
             createdAt = TimeValue 4, updatedAt = TimeValue 4 \<rparr> ],
       activeConversationId = Some ''a'',
       apiKey = ''k'',
       loading = False \<rparr>"

definition hello :: "string \<Rightarrow> Message" where
  "hello text = \<lparr> message_id = ''m'', role = User, content = text,
                  message_createdAt = TimeValue 5 \<rparr>"

text \<open>
  A world without network: \<^verbatim>\<open>fetch\<close> rejects, as it does when the endpoint cannot be
  reached. And a world whose endpoint answers every request with one choice, built from
  the last entry of the transcript it was sent.
\<close>

definition offline :: World where
  "offline =
     \<lparr> VITE_GEMINI_API_URL = ''https://example.test/v1/chat/completions'',
       VITE_GEMINI_MODEL = ''gemini'',
       fetch = (\<lambda>request. Rejected (ErrorObject ''Failed to fetch'')),
       type_error_text = ''Cannot read properties of undefined'',
       conversation_nanoid = ''c1'', user_nanoid = ''u1'', reply_nanoid = ''r1'',
       conversation_created = 10, conversation_updated = 10,
       user_created = 11, user_added = 12, reply_created = 13, reply_added = 14 \<rparr>"

definition echoing :: World where
  "echoing = offline
     \<lparr> fetch := (\<lambda>request. Responded True
          \<lparr> error_message = None,
            choices = [''You said: '' @ snd (last (transcript request))] \<rparr>) \<rparr>"

text \<open>
  The store after \<^verbatim>\<open>setActiveConversation\<close> with an id that no conversation has, and
  with no credential.
\<close>

definition dangling :: ZenithState where
  "dangling = two_conversations \<lparr> activeConversationId := Some ''zz'', apiKey := [] \<rparr>"

text \<open>
  A stored conversation list, and the conversations it holds. The second conversation was
  stored with an Invalid Date as its \<^verbatim>\<open>updatedAt\<close>.
\<close>

definition saved_list :: json where
  "saved_list =
     JArray
       [JObject [(''id'', JString ''a''), (''title'', JString ''hello...''),
                 (''messages'',
                    JArray [JObject [(''id'', JString ''m1''), (''role'', JString ''user''),
                                     (''content'', JString ''hello''),
                                     (''createdAt'', JString ''2023-11-14T22:13:20.123Z'')]]),
                 (''createdAt'', JString ''2023-11-14T22:13:20.000Z''),
                 (''updatedAt'', JString ''2023-11-14T22:13:21.000Z'')],
        JObject [(''id'', JString ''b''), (''title'', JString ''New conversation''),
                 (''messages'', JArray []),
                 (''createdAt'', JString ''1970-01-01T00:00:00.000Z''),
                 (''updatedAt'', JNull)]]"

definition loaded_first :: Conversation where
  "loaded_first =
     \<lparr> conversation_id = ''a'', title = ''hello...'',
       messages = [\<lparr> message_id = ''m1'', role = User, content = ''hello'',
                     message_createdAt = TimeValue 1700000000123 \<rparr>],
       createdAt = TimeValue 1700000000000, updatedAt = TimeValue 1700000001000 \<rparr>"

definition loaded_second :: Conversation where
  "loaded_second =
     \<lparr> conversation_id = ''b'', title = ''New conversation'', messages = [],
       createdAt = TimeValue 0, updatedAt = TimeValue 0 \<rparr>"

definition key_only :: LocalStorage where
  "key_only = \<lparr> zenith_conversations = None, zenith_api_key = Some ''k'' \<rparr>"

section \<open>Properties\<close>

subsection \<open>The reducer on one conversation\<close>

lemma zip_map_same: "(c, c') \<in> set (zip xs (map f xs)) \<Longrightarrow> c' = f c"
  by (induction xs) auto

lemma derived_not_default: "take 30 s @ ''...'' \<noteq> default_title"
proof
  assume "take 30 s @ ''...'' = default_title"
  then have "last (take 30 s @ ''...'') = last default_title" by simp
  then show False by (simp add: default_title_def)
qed

lemma title_add:
  "title (add_to_conversation now cid m c) =
     (if conversation_id c = cid \<and> messages c = [] \<and> title c = default_title
      then take 30 (content m) @ ''...'' else title c)"
  by (auto simp: add_to_conversation_def Let_def)

lemma id_add: "conversation_id (add_to_conversation now cid m c) = conversation_id c"
  by (simp add: add_to_conversation_def Let_def)

lemma messages_add:
  "messages (add_to_conversation now cid m c) =
     (if conversation_id c = cid then messages c @ [m] else messages c)"
  by (simp add: add_to_conversation_def Let_def)

lemma add_other: "conversation_id c \<noteq> cid \<Longrightarrow> add_to_conversation now cid m c = c"
  by (simp add: add_to_conversation_def)

lemma nth_appendMessage:
  "i < length (conversations state) \<Longrightarrow>
   conversations (appendMessage now cid m state) ! i
     = add_to_conversation now cid m (conversations state ! i)"
  by (simp add: appendMessage_def)

lemma length_appendMessage:
  "length (conversations (appendMessage now cid m state)) = length (conversations state)"
  by (simp add: appendMessage_def)

subsection \<open>Title derivation\<close>

text \<open>
  Over a sequence of calls the title of a conversation changes once when the conversation
  starts empty with the default title and some call appends to it, and never otherwise.
\<close>

lemma title_changes_count:
  "i < length (conversations state) \<Longrightarrow>
   title_changes i calls state =
     (if title (conversations state ! i) = default_title \<and> messages (conversations state ! i) = []
         \<and> (\<exists>call \<in> set calls. fst (snd call) = conversation_id (conversations state ! i))
      then 1 else 0)"
proof (induction calls arbitrary: state)
  case Nil
  then show ?case by simp
next
  case (Cons call calls)
  obtain now cid m where call: "call = (now, cid, m)" by (cases call) auto
  let ?c = "conversations state ! i"
  let ?state' = "appendMessage now cid m state"
  have i': "i < length (conversations ?state')"
    using Cons.prems by (simp add: length_appendMessage)
  have c': "conversations ?state' ! i = add_to_conversation now cid m ?c"
    using Cons.prems by (rule nth_appendMessage)
  note IH = Cons.IH [OF i', unfolded c']
  show ?case
  proof (cases "conversation_id ?c = cid")
    case True
    then have "messages (add_to_conversation now cid m ?c) \<noteq> []"
      by (simp add: messages_add)
    with IH have rest: "title_changes i calls ?state' = 0" by simp
    show ?thesis
      using True rest derived_not_default [of "content m"]
      by (auto simp: call c' title_add)
  next
    case False
    then have same: "add_to_conversation now cid m ?c = ?c"
      by (rule add_other)
    show ?thesis
      using False IH by (auto simp: call c' same)
  qed
qed

text \<open>
  C5. A call of \<^verbatim>\<open>appendMessage\<close> changes the title of a conversation exactly when it
  appends to that conversation while its message list is empty (the count goes from 0 to
  1) and its title is the default; the new title is the first 30 characters of the
  message's content followed by \<^verbatim>\<open>...\<close>, and on every other call the title stays. Over
  any sequence of calls this happens once for a conversation that starts empty with the
  default title and is appended to, and not at all for any other: never twice.
\<close>

theorem title_derived_once:
  assumes "i < length (conversations state)"
  shows "title (conversations (appendMessage now cid m state) ! i) =
           (if conversation_id (conversations state ! i) = cid
               \<and> messages (conversations state ! i) = []
               \<and> title (conversations state ! i) = default_title
            then take 30 (content m) @ ''...''
            else title (conversations state ! i))
         \<and> title_changes i calls state =
           (if title (conversations state ! i) = default_title
               \<and> messages (conversations state ! i) = []
               \<and> (\<exists>call \<in> set calls. fst (snd call) = conversation_id (conversations state ! i))
            then 1 else 0)"
  using assms by (simp add: nth_appendMessage title_add title_changes_count)

theorem title_derived_once_witness:
  "(1::nat) < length (conversations two_conversations) \<and>
   title (conversations
            (appendMessage (TimeValue 6) ''b''
               (hello ''What is the capital of France, and why?'') two_conversations) ! 1)
     = ''What is the capital of France,...'' \<and>
   title_changes 1
     [(TimeValue 6, ''a'', hello ''one''), (TimeValue 7, ''b'', hello ''two''),
      (TimeValue 8, ''b'', hello ''three'')] two_conversations = 1 \<and>
   title_changes 0
     [(TimeValue 6, ''a'', hello ''one''), (TimeValue 7, ''b'', hello ''two'')]
     two_conversations = 0"
  using title_derived_once [of 1 two_conversations "TimeValue 6" "''b''"
      "hello ''What is the capital of France, and why?''"
      "[(TimeValue 6, ''a'', hello ''one''), (TimeValue 7, ''b'', hello ''two''),
        (TimeValue 8, ''b'', hello ''three'')]"]
    title_derived_once [of 0 two_conversations "TimeValue 6" "''b''" "hello ''x''"
      "[(TimeValue 6, ''a'', hello ''one''), (TimeValue 7, ''b'', hello ''two'')]"]
  by (simp add: two_conversations_def hello_def default_title_def)

subsection \<open>Clearing the active conversation\<close>

text \<open>
  C8. With an active conversation, \<^verbatim>\<open>clearMessages\<close> empties the message list of the
  conversation with the active id and sets its \<^verbatim>\<open>updatedAt\<close> to the current time; its id,
  its \<^verbatim>\<open>createdAt\<close> and its title stay, every other conversation stays, and so do the active
  id, the credential and the busy flag. With no active conversation the state is unchanged.
\<close>

theorem clearMessages_frame:
  "(truthy (activeConversationId state) \<longrightarrow>
      length (conversations (clearConversation now state)) = length (conversations state) \<and>
      (\<forall>i < length (conversations state).
         (Some (conversation_id (conversations state ! i)) = activeConversationId state \<longrightarrow>
            messages (conversations (clearConversation now state) ! i) = [] \<and>
            updatedAt (conversations (clearConversation now state) ! i) = now \<and>
            conversation_id (conversations (clearConversation now state) ! i)
              = conversation_id (conversations state ! i) \<and>
            createdAt (conversations (clearConversation now state) ! i)
              = createdAt (conversations state ! i) \<and>
            title (conversations (clearConversation now state) ! i)
              = title (conversations state ! i)) \<and>
         (Some (conversation_id (conversations state ! i)) \<noteq> activeConversationId state \<longrightarrow>
            conversations (clearConversation now state) ! i = conversations state ! i)) \<and>
      activeConversationId (clearConversation now state) = activeConversationId state \<and>
      apiKey (clearConversation now state) = apiKey state \<and>
      loading (clearConversation now state) = loading state)
   \<and> (\<not> truthy (activeConversationId state) \<longrightarrow> clearConversation now state = state)"
  by (simp add: clearConversation_def clear_conversation_def)

theorem clearMessages_frame_witness:
  "truthy (activeConversationId two_conversations) \<and>
   messages (conversations (clearConversation (TimeValue 9) two_conversations) ! 0) = [] \<and>
   updatedAt (conversations (clearConversation (TimeValue 9) two_conversations) ! 0)
     = TimeValue 9 \<and>
   createdAt (conversations (clearConversation (TimeValue 9) two_conversations) ! 0)
     = TimeValue 1 \<and>
   conversations (clearConversation (TimeValue 9) two_conversations) ! 1
     = conversations two_conversations ! 1 \<and>
   clearConversation (TimeValue 9) (two_conversations \<lparr> activeConversationId := None \<rparr>)
     = two_conversations \<lparr> activeConversationId := None \<rparr>"
  using clearMessages_frame [of two_conversations "TimeValue 9"]
    clearMessages_frame [of "two_conversations \<lparr> activeConversationId := None \<rparr>" "TimeValue 9"]
  by (simp add: two_conversations_def)

text \<open>
  C9, as stated, fails: clearing the active conversation at time 9 replaces its
  \<^verbatim>\<open>updatedAt\<close>, which was 3.
\<close>

theorem clear_changes_updatedAt:
  "activeConversationId two_conversations
     = Some (conversation_id (conversations two_conversations ! 0)) \<and>
   updatedAt (conversations two_conversations ! 0) = TimeValue 3 \<and>
   updatedAt (conversations (clearConversation (TimeValue 9) two_conversations) ! 0)
     = TimeValue 9"
  by (simp add: two_conversations_def clearConversation_def clear_conversation_def)

text \<open>
  C9, amended. With an active conversation, the clear operation empties the message list
  of the conversation with the active id and keeps its id, its title and its
  \<^verbatim>\<open>createdAt\<close>; its \<^verbatim>\<open>updatedAt\<close> becomes the time of the clear.
\<close>

theorem clear_keeps_identity:
  assumes "truthy (activeConversationId state)"
    and "(c, c') \<in> set (zip (conversations state) (conversations (clearConversation now state)))"
    and "Some (conversation_id c) = activeConversationId state"
  shows "messages c' = [] \<and> conversation_id c' = conversation_id c \<and>
         title c' = title c \<and> createdAt c' = createdAt c \<and> updatedAt c' = now"
proof -
  from assms(1,2) have "c' = clear_conversation now (activeConversationId state) c"
    by (simp add: clearConversation_def zip_map_same)
  with assms(3) show ?thesis
    by (simp add: clear_conversation_def)
qed

theorem clear_keeps_identity_witness:
  "truthy (activeConversationId two_conversations) \<and>
   createdAt (hd (conversations (clearConversation (TimeValue 9) two_conversations)))
     = TimeValue 1 \<and>
   updatedAt (hd (conversations (clearConversation (TimeValue 9) two_conversations)))
     = TimeValue 9 \<and>
   messages (hd (conversations (clearConversation (TimeValue 9) two_conversations))) = []"
  using clear_keeps_identity [of two_conversations "hd (conversations two_conversations)"
      "hd (conversations (clearConversation (TimeValue 9) two_conversations))" "TimeValue 9"]
  by (simp add: two_conversations_def clearConversation_def clear_conversation_def)

subsection \<open>Sending a message\<close>

lemma two_adds:
  "conversation_id c = a \<Longrightarrow>
   messages (add_to_conversation t2 a m2 (add_to_conversation t1 a m1 c)) = messages c @ [m1, m2]"
  by (simp add: messages_add id_add)

lemma resolve_active:
  "activeConversationId state = Some a \<Longrightarrow> a \<noteq> [] \<Longrightarrow> resolveConversationId w state = Inr a"
  by (simp add: resolveConversationId_def)

lemma sendMessage_active_failed:
  assumes "activeConversationId state = Some a" "a \<noteq> []"
    and "requestReply w state a text = Inl error"
  shows "sendMessage w state text =
     (Returned,
      state \<lparr> conversations :=
                map (\<lambda>c. add_to_conversation (TimeValue (reply_added w)) a
                        \<lparr> message_id = reply_nanoid w, role = Assistant,
                          content = errorContent error,
                          message_createdAt = TimeValue (reply_created w) \<rparr>
                        (add_to_conversation (TimeValue (user_added w)) a
                           \<lparr> message_id = user_nanoid w, role = User, content = text,
                             message_createdAt = TimeValue (user_created w) \<rparr> c))
                  (conversations state),
              loading := False \<rparr>)"
  using assms by (simp add: sendMessage_def resolve_active Let_def comp_def)

lemma sendMessage_active_replied:
  assumes "activeConversationId state = Some a" "a \<noteq> []"
    and "requestReply w state a text = Inr (Some reply)"
  shows "sendMessage w state text =
     (Returned,
      state \<lparr> conversations :=
                map (\<lambda>c. add_to_conversation (TimeValue (reply_added w)) a
                        \<lparr> message_id = reply_nanoid w, role = Assistant,
                          content = reply,
                          message_createdAt = TimeValue (reply_created w) \<rparr>
                        (add_to_conversation (TimeValue (user_added w)) a
                           \<lparr> message_id = user_nanoid w, role = User, content = text,
                             message_createdAt = TimeValue (user_created w) \<rparr> c))
                  (conversations state),
              loading := False \<rparr>)"
  using assms by (simp add: sendMessage_def resolve_active Let_def comp_def)

text \<open>The failures of the \<^verbatim>\<open>try\<close> block, one by one.\<close>

lemma requestReply_failures:
  "requestReply w state a text = Inl error \<longleftrightarrow>
     (apiKey state = [] \<and> error = ErrorObject ''Please set your Gemini API key in the settings'')
   \<or> (apiKey state \<noteq> [] \<and>
       (\<exists>active. find (\<lambda>c. conversation_id c = a) (conversations state) = Some active \<and>
          (fetch w (buildRequest w state active text) = Rejected error
           \<or> (\<exists>data. fetch w (buildRequest w state active text) = Responded False data \<and>
                 error = ErrorObject
                   (case error_message data of
                      None \<Rightarrow> ''Failed to get response from Gemini API''
                    | Some message \<Rightarrow> if message \<noteq> [] then message
                                      else ''Failed to get response from Gemini API''))
           \<or> (\<exists>data. fetch w (buildRequest w state active text) = Responded True data \<and>
                 choices data = [] \<and> error = ErrorObject (type_error_text w)))))"
proof (cases "apiKey state = []")
  case True
  then show ?thesis by (auto simp: requestReply_def)
next
  case key: False
  show ?thesis
  proof (cases "find (\<lambda>c. conversation_id c = a) (conversations state)")
    case None
    with key show ?thesis by (simp add: requestReply_def)
  next
    case (Some active)
    show ?thesis
    proof (cases "fetch w (buildRequest w state active text)")
      case (Rejected thrown)
      with key Some show ?thesis by (auto simp: requestReply_def)
    next
      case (Responded ok data)
      show ?thesis
      proof (cases ok)
        case False
        with key Some Responded show ?thesis by (auto simp: requestReply_def)
      next
        case True
        with key Some Responded show ?thesis
          by (cases "choices data") (auto simp: requestReply_def)
      qed
    qed
  qed
qed


text \<open>
  C1, amended. In a state whose active id is set, every failure of the \<^verbatim>\<open>try\<close> block (a
  missing credential, a rejected network call, a response that is not ok, a body without
  a first choice) ends with \<^verbatim>\<open>sendMessage\<close> returning, the busy flag false, and every
  conversation with the active id extended by the user message and one assistant message
  whose content is \<^verbatim>\<open>Error: \<close> followed by the failure's description; the other
  conversations are unchanged.
\<close>

theorem sendMessage_failure_reported:
  assumes "activeConversationId state = Some a" and "a \<noteq> []"
    and "requestReply w state a text = Inl error"
    and "i < length (conversations state)"
  shows "fst (sendMessage w state text) = Returned \<and>
         loading (snd (sendMessage w state text)) = False \<and>
         length (conversations (snd (sendMessage w state text))) = length (conversations state) \<and>
         (conversation_id (conversations state ! i) = a \<longrightarrow>
            messages (conversations (snd (sendMessage w state text)) ! i) =
              messages (conversations state ! i) @
              [\<lparr> message_id = user_nanoid w, role = User, content = text,
                 message_createdAt = TimeValue (user_created w) \<rparr>,
               \<lparr> message_id = reply_nanoid w, role = Assistant,
                 content = ''Error: '' @
                   (case error of ErrorObject message \<Rightarrow> message
                                | OtherValue \<Rightarrow> ''Unknown error occurred''),
                 message_createdAt = TimeValue (reply_created w) \<rparr>]) \<and>
         (conversation_id (conversations state ! i) \<noteq> a \<longrightarrow>
            conversations (snd (sendMessage w state text)) ! i = conversations state ! i)"
  using assms(4)
  by (simp add: sendMessage_active_failed [OF assms(1-3)] two_adds add_other errorContent_def)

theorem sendMessage_failure_reported_witness:
  "activeConversationId two_conversations = Some ''a'' \<and>
   requestReply offline two_conversations ''a'' ''hi'' = Inl (ErrorObject ''Failed to fetch'') \<and>
   fst (sendMessage offline two_conversations ''hi'') = Returned \<and>
   loading (snd (sendMessage offline two_conversations ''hi'')) = False \<and>
   messages (conversations (snd (sendMessage offline two_conversations ''hi'')) ! 0) =
     [\<lparr> message_id = ''m1'', role = User, content = ''hello'',
        message_createdAt = TimeValue 2 \<rparr>,
      \<lparr> message_id = ''u1'', role = User, content = ''hi'',
        message_createdAt = TimeValue 11 \<rparr>,
      \<lparr> message_id = ''r1'', role = Assistant, content = ''Error: Failed to fetch'',
        message_createdAt = TimeValue 13 \<rparr>] \<and>
   conversations (snd (sendMessage offline two_conversations ''hi'')) ! 1
     = conversations two_conversations ! 1"
  using sendMessage_failure_reported [of two_conversations "''a''" offline "''hi''"
      "ErrorObject ''Failed to fetch''" 0]
    sendMessage_failure_reported [of two_conversations "''a''" offline "''hi''"
      "ErrorObject ''Failed to fetch''" 1]
  by (simp add: requestReply_def two_conversations_def offline_def)

text \<open>The store with the dangling active id is one the operations of the store reach.\<close>

lemma dangling_reachable:
  "setApiKey now [] (setActiveConversation now ''zz'' two_conversations) = dangling"
  by (simp add: setApiKey_def setActiveConversation_def dangling_def)

text \<open>
  C1, as stated, fails: with an active id that no conversation has and no credential,
  the credential check throws, and \<^verbatim>\<open>sendMessage\<close> returns with the store as it was: no
  message has been appended.
\<close>

theorem sendMessage_dangling_appends_nothing:
  "requestReply offline dangling ''zz'' ''hi''
     = Inl (ErrorObject ''Please set your Gemini API key in the settings'') \<and>
   sendMessage offline dangling ''hi'' = (Returned, dangling)"
  by (simp add: requestReply_def sendMessage_def resolveConversationId_def dangling_def
      two_conversations_def offline_def add_to_conversation_def)

text \<open>
  C4. With an active conversation and an empty credential, \<^verbatim>\<open>sendMessage\<close> returns with
  the busy flag false, and the active conversation has two more messages: the user
  message, then an assistant message that reports the missing credential.
\<close>

theorem sendMessage_without_credential:
  assumes "activeConversationId state = Some a" and "a \<noteq> []"
    and "apiKey state = []"
    and "i < length (conversations state)"
    and "conversation_id (conversations state ! i) = a"
  shows "fst (sendMessage w state text) = Returned \<and>
         loading (snd (sendMessage w state text)) = False \<and>
         messages (conversations (snd (sendMessage w state text)) ! i) =
           messages (conversations state ! i) @
           [\<lparr> message_id = user_nanoid w, role = User, content = text,
              message_createdAt = TimeValue (user_created w) \<rparr>,
            \<lparr> message_id = reply_nanoid w, role = Assistant,
              content = ''Error: Please set your Gemini API key in the settings'',
              message_createdAt = TimeValue (reply_created w) \<rparr>]"
proof -
  from assms(3) have "requestReply w state a text
      = Inl (ErrorObject ''Please set your Gemini API key in the settings'')"
    by (simp add: requestReply_def)
  from sendMessage_active_failed [OF assms(1,2) this] assms(4,5) show ?thesis
    by (simp add: two_adds errorContent_def)
qed

theorem sendMessage_without_credential_witness:
  "activeConversationId (two_conversations \<lparr> apiKey := [] \<rparr>) = Some ''a'' \<and>
   fst (sendMessage echoing (two_conversations \<lparr> apiKey := [] \<rparr>) ''hi'') = Returned \<and>
   loading (snd (sendMessage echoing (two_conversations \<lparr> apiKey := [] \<rparr>) ''hi'')) = False \<and>
   length (messages (conversations two_conversations ! 0)) = 1 \<and>
   length (messages (conversations
      (snd (sendMessage echoing (two_conversations \<lparr> apiKey := [] \<rparr>) ''hi'')) ! 0)) = 3"
  using sendMessage_without_credential [of "two_conversations \<lparr> apiKey := [] \<rparr>" "''a''" 0
      echoing "''hi''"]
  by (simp add: two_conversations_def)

lemma requestReply_success:
  assumes "apiKey state \<noteq> []"
    and "find (\<lambda>c. conversation_id c = a) (conversations state) = Some active"
    and "fetch w (buildRequest w state active text) = Responded True data"
    and "choices data = reply # others"
  shows "requestReply w state a text = Inr (Some reply)"
  using assms by (simp add: requestReply_def)

text \<open>
  C3. With an active conversation, a credential, and a response that is ok and has a
  first choice, \<^verbatim>\<open>sendMessage\<close> returns with the active conversation two messages longer:
  the user message, then an assistant message whose content is the first choice's text.
\<close>

theorem sendMessage_success:
  assumes "activeConversationId state = Some a" and "a \<noteq> []"
    and "apiKey state \<noteq> []"
    and "find (\<lambda>c. conversation_id c = a) (conversations state) = Some active"
    and "fetch w (buildRequest w state active text) = Responded True data"
    and "choices data = reply # others"
    and "i < length (conversations state)"
    and "conversation_id (conversations state ! i) = a"
  shows "fst (sendMessage w state text) = Returned \<and>
         loading (snd (sendMessage w state text)) = False \<and>
         messages (conversations (snd (sendMessage w state text)) ! i) =
           messages (conversations state ! i) @
           [\<lparr> message_id = user_nanoid w, role = User, content = text,
              message_createdAt = TimeValue (user_created w) \<rparr>,
            \<lparr> message_id = reply_nanoid w, role = Assistant, content = reply,
              message_createdAt = TimeValue (reply_created w) \<rparr>]"
proof -
  have "requestReply w state a text = Inr (Some reply)"
    using assms(3-6) by (rule requestReply_success)
  from sendMessage_active_replied [OF assms(1,2) this] assms(7,8) show ?thesis
    by (simp add: two_adds)
qed

theorem sendMessage_success_witness:
  "activeConversationId two_conversations = Some ''a'' \<and>
   apiKey two_conversations \<noteq> [] \<and>
   fst (sendMessage echoing two_conversations ''hi'') = Returned \<and>
   loading (snd (sendMessage echoing two_conversations ''hi'')) = False \<and>
   messages (conversations (snd (sendMessage echoing two_conversations ''hi'')) ! 0) =
     [\<lparr> message_id = ''m1'', role = User, content = ''hello'',
        message_createdAt = TimeValue 2 \<rparr>,
      \<lparr> message_id = ''u1'', role = User, content = ''hi'',
        message_createdAt = TimeValue 11 \<rparr>,
      \<lparr> message_id = ''r1'', role = Assistant, content = ''You said: hi'',
        message_createdAt = TimeValue 13 \<rparr>]"
  using sendMessage_success [of two_conversations "''a''" "hd (conversations two_conversations)"
      echoing "''hi''" "\<lparr> error_message = None, choices = [''You said: hi''] \<rparr>"
      "''You said: hi''" "[]" 0]
  by (simp add: two_conversations_def echoing_def offline_def buildRequest_def)

lemma sendMessage_inactive:
  assumes "\<not> truthy (activeConversationId state)"
  shows "resolveConversationId w state = lastConversationId w state"
  using assms by (cases "activeConversationId state") (simp_all add: resolveConversationId_def)

text \<open>
  C2 does not hold of the code. With no active conversation \<^verbatim>\<open>sendMessage\<close> creates a
  conversation and makes it active, and then resolves the target of the user message from
  the state it closed over, in which the new conversation does not exist: the new
  conversation has no message when \<^verbatim>\<open>sendMessage\<close> is done, and on an empty list the
  resolution throws.
\<close>

theorem sendMessage_new_conversation_stays_empty:
  assumes "\<not> truthy (activeConversationId state)"
    and "conversation_nanoid w \<notin> conversation_id ` set (conversations state)"
  shows "conversations (snd (sendMessage w state text)) \<noteq> [] \<and>
         conversation_id (last (conversations (snd (sendMessage w state text))))
           = conversation_nanoid w \<and>
         messages (last (conversations (snd (sendMessage w state text)))) = [] \<and>
         activeConversationId (snd (sendMessage w state text)) = Some (conversation_nanoid w) \<and>
         (conversations state = [] \<longrightarrow>
            fst (sendMessage w state text) = Threw (ErrorObject (type_error_text w)))"
proof (cases "conversations state")
  case Nil
  with assms(1) show ?thesis
    by (simp add: sendMessage_def sendMessage_inactive lastConversationId_def
        createNewConversation_def)
next
  case (Cons c cs)
  then have ne: "conversations state \<noteq> []" by simp
  then have "last (conversations state) \<in> set (conversations state)" by simp
  with assms(2) have fresh: "conversation_nanoid w \<noteq> conversation_id (last (conversations state))"
    by auto
  have resolved: "resolveConversationId w state = Inr (conversation_id (last (conversations state)))"
    using assms(1) Cons by (simp add: sendMessage_inactive lastConversationId_def)
  show ?thesis
    using assms(1) fresh ne
    by (simp add: sendMessage_def resolved createNewConversation_def Let_def add_other
        last_map split: sum.splits option.splits)
qed

theorem sendMessage_new_conversation_stays_empty_witness:
  "\<not> truthy (activeConversationId (initialState None)) \<and>
   sendMessage offline (initialState None) ''hi'' =
     (Threw (ErrorObject ''Cannot read properties of undefined''),
      \<lparr> conversations =
          [\<lparr> conversation_id = ''c1'', title = ''New conversation'', messages = [],
             createdAt = TimeValue 10, updatedAt = TimeValue 10 \<rparr>],
        activeConversationId = Some ''c1'', apiKey = [], loading = False \<rparr>)"
  using sendMessage_new_conversation_stays_empty [of "initialState None" offline "''hi''"]
  by (simp add: initialState_def offline_def sendMessage_def resolveConversationId_def
      lastConversationId_def createNewConversation_def default_title_def)

subsection \<open>The calendar\<close>

text \<open>
  The arithmetic of \<open>civil_from_days\<close>, step by step: the remainders after the 400-year,
  100-year, 4-year and 1-year cycles, the month index and the day of the month.
\<close>

lemma century_bounds: "0 \<le> (r::int) \<Longrightarrow> r < 146097 \<Longrightarrow> 0 \<le> r - 36524 * min 3 (r div 36524) \<and> r - 36524 * min 3 (r div 36524) \<le> 36524"
  by (simp add: min_def) arith

lemma quad_bounds: "0 \<le> (r::int) \<Longrightarrow> r \<le> 36524 \<Longrightarrow> 0 \<le> r div 1461 \<and> r div 1461 \<le> 24"
  by arith

lemma year_day_bounds: "0 \<le> (r::int) \<Longrightarrow> r < 1461 \<Longrightarrow> 0 \<le> r - 365 * min 3 (r div 365) \<and> r - 365 * min 3 (r div 365) \<le> 365"
  by (simp add: min_def) arith

lemma month_index_bounds: "0 \<le> (r::int) \<Longrightarrow> r \<le> 365 \<Longrightarrow> 0 \<le> (5 * r + 2) div 153 \<and> (5 * r + 2) div 153 \<le> 11"
  by arith

lemma month_index_div: "(mp::int) = (5 * r + 2) div 153 \<Longrightarrow> 153 * mp \<le> 5 * r + 2 \<and> 5 * r + 2 < 153 * mp + 153"
  by arith

lemma month_start_div: "(e::int) = (153 * mp + 2) div 5 \<Longrightarrow> 5 * e \<le> 153 * mp + 2 \<and> 153 * mp + 2 < 5 * e + 5"
  by arith

lemma month_day_bounds: "153 * (mp::int) \<le> 5 * r + 2 \<Longrightarrow> 5 * r + 2 < 153 * mp + 153 \<Longrightarrow> 5 * e \<le> 153 * mp + 2 \<Longrightarrow> 153 * mp + 2 < 5 * e + 5 \<Longrightarrow> 1 \<le> r - e + 1 \<and> r - e + 1 \<le> 31"
  by arith

lemma year_of_era_div_4: "0 \<le> (n1::int) \<Longrightarrow> n1 \<le> 3 \<Longrightarrow> (100 * n100 + 4 * n4 + n1) div 4 = 25 * n100 + n4"
  by arith

lemma year_of_era_div_100: "0 \<le> (n1::int) \<Longrightarrow> n1 \<le> 3 \<Longrightarrow> 0 \<le> n4 \<Longrightarrow> n4 \<le> 24 \<Longrightarrow> (100 * n100 + 4 * n4 + n1) div 100 = n100"
  by arith

lemma era_split: "0 \<le> (yoe::int) \<Longrightarrow> yoe < 400 \<Longrightarrow> (400 * n + yoe) div 400 = n \<and> (400 * n + yoe) mod 400 = yoe"
  by simp


text \<open>
  A day number gives a month from 1 to 12 and a day from 1 to 31, \<open>days_from_civil\<close>
  gives the day number back, and the year is within 400 years of the 400-year cycle.
\<close>

lemma civil_roundtrip:
  assumes "civil_from_days day = (y, m, d)"
  shows "1 \<le> m \<and> m \<le> 12 \<and> 1 \<le> d \<and> d \<le> 31 \<and> days_from_civil y m d = day
         \<and> 400 * ((day + 719468) div 146097) \<le> y \<and> y \<le> 400 * ((day + 719468) div 146097) + 400"
proof -
  define z where "z = day + 719468"
  define n400 where "n400 = z div 146097"
  define r400 where "r400 = z mod 146097"
  define n100 where "n100 = min 3 (r400 div 36524)"
  define r100 where "r100 = r400 - 36524 * n100"
  define n4 where "n4 = r100 div 1461"
  define r4 where "r4 = r100 mod 1461"
  define n1 where "n1 = min 3 (r4 div 365)"
  define r1 where "r1 = r4 - 365 * n1"
  define mp where "mp = (5 * r1 + 2) div 153"
  define e where "e = (153 * mp + 2) div 5"
  define yoe where "yoe = 100 * n100 + 4 * n4 + n1"
  have "civil_from_days day =
          (400 * n400 + 100 * n100 + 4 * n4 + n1
             + (if (if mp < 10 then mp + 3 else mp - 9) \<le> 2 then 1 else 0),
           (if mp < 10 then mp + 3 else mp - 9),
           r1 - (153 * mp + 2) div 5 + 1)"
    unfolding civil_from_days_def Let_def mp_def r1_def n1_def r4_def n4_def r100_def n100_def
      r400_def n400_def z_def
    by (rule refl)
  with assms have yv: "y = 400 * n400 + yoe + (if m \<le> 2 then 1 else 0)"
    and mv: "m = (if mp < 10 then mp + 3 else mp - 9)"
    and dv: "d = r1 - e + 1"
    by (auto simp: yoe_def e_def)
  have z: "z = 146097 * n400 + r400"
    by (simp add: n400_def r400_def)
  have r400: "0 \<le> r400" "r400 < 146097"
    by (simp_all add: r400_def)
  have n100: "0 \<le> n100" "n100 \<le> 3"
    using r400(1) by (simp_all add: n100_def pos_imp_zdiv_nonneg_iff)
  have r100: "0 \<le> r100" "r100 \<le> 36524"
    using century_bounds [OF r400] by (simp_all add: r100_def n100_def)
  have n4: "0 \<le> n4" "n4 \<le> 24"
    using quad_bounds [OF r100] by (simp_all add: n4_def)
  have r4: "0 \<le> r4" "r4 < 1461"
    by (simp_all add: r4_def)
  have r100_split: "r100 = 1461 * n4 + r4"
    by (simp add: n4_def r4_def)
  have n1: "0 \<le> n1" "n1 \<le> 3"
    using r4(1) by (simp_all add: n1_def pos_imp_zdiv_nonneg_iff)
  have r1: "0 \<le> r1" "r1 \<le> 365"
    using year_day_bounds [OF r4] by (simp_all add: r1_def n1_def)
  have mp: "0 \<le> mp" "mp \<le> 11"
    using month_index_bounds [OF r1] by (simp_all add: mp_def)
  have mp2: "153 * mp \<le> 5 * r1 + 2" "5 * r1 + 2 < 153 * mp + 153"
    using month_index_div [OF mp_def] by simp_all
  have e: "5 * e \<le> 153 * mp + 2" "153 * mp + 2 < 5 * e + 5"
    using month_start_div [OF e_def] by simp_all
  have d: "1 \<le> d" "d \<le> 31"
    using month_day_bounds [OF mp2 e] by (simp_all add: dv)
  have m: "1 \<le> m" "m \<le> 12"
    using mp unfolding mv by (simp_all split: if_splits)
  have yoe: "0 \<le> yoe" "yoe < 400"
    using n100 n4 n1 unfolding yoe_def by linarith+
  have y': "(if m \<le> 2 then y - 1 else y) = 400 * n400 + yoe"
    unfolding yv by simp
  have era: "(400 * n400 + yoe) div 400 = n400" and yoem: "(400 * n400 + yoe) mod 400 = yoe"
    using era_split [OF yoe] by simp_all
  have mp': "(if m > 2 then m - 3 else m + 9) = mp"
    using mp unfolding mv by (simp split: if_splits)
  have q4: "yoe div 4 = 25 * n100 + n4"
    unfolding yoe_def by (rule year_of_era_div_4 [OF n1])
  have q100: "yoe div 100 = n100"
    unfolding yoe_def by (rule year_of_era_div_100 [OF n1 n4])
  have "days_from_civil y m d
          = 146097 * n400 + (365 * yoe + yoe div 4 - yoe div 100 + (e + d - 1)) - 719468"
    unfolding days_from_civil_def Let_def y' era yoem mp' e_def by simp
  also have "\<dots> = 146097 * n400 + (36524 * n100 + (1461 * n4 + (365 * n1 + r1))) - 719468"
    by (simp only: q4 q100 dv) (simp add: yoe_def)
  also have "\<dots> = z - 719468"
    unfolding z r100_split [symmetric]
    by (simp add: r1_def r100_def r100_split [symmetric])
  finally have inverse_day: "days_from_civil y m d = day"
    by (simp add: z_def)
  have "400 * n400 \<le> y" "y \<le> 400 * n400 + 400"
    using yoe unfolding yv by (simp_all split: if_splits)
  with d m inverse_day show ?thesis
    by (simp add: n400_def z_def)
qed

subsection \<open>Digits\<close>

lemma below_ten: "(n::nat) < 10 \<Longrightarrow> n \<in> {0, 1, 2, 3, 4, 5, 6, 7, 8, 9}"
  by auto

lemma digit_value_digit_char: "n < 10 \<Longrightarrow> digit_value (digit_char n) = Some n"
  by (drule below_ten) (auto simp: digit_value_def digit_char_def)

lemma digit_char_not_sign:
  "n < 10 \<Longrightarrow> digit_char n \<noteq> CHR ''+'' \<and> digit_char n \<noteq> CHR ''-''"
  by (drule below_ten) (auto simp: digit_char_def)

lemma length_pad: "length (pad k n) = k"
  by (induction k arbitrary: n) simp_all

lemma number_append:
  "number acc (xs @ ys) = (case number acc xs of None \<Rightarrow> None | Some v \<Rightarrow> number v ys)"
  by (induction xs arbitrary: acc) (simp_all split: option.splits)

lemma number_pad: "n < 10 ^ k \<Longrightarrow> number acc (pad k n) = Some (acc * 10 ^ k + n)"
proof (induction k arbitrary: n acc)
  case 0
  then show ?case by simp
next
  case (Suc k)
  from Suc.prems have "n div 10 < 10 ^ k"
    by (simp add: less_mult_imp_div_less mult.commute)
  then have "number acc (pad k (n div 10)) = Some (acc * 10 ^ k + n div 10)"
    by (rule Suc.IH)
  then show ?case
    by (simp add: number_append digit_value_digit_char algebra_simps)
qed

lemma number_pad_0: "n < 10 ^ k \<Longrightarrow> number 0 (pad k n) = Some n"
  by (simp add: number_pad)

lemma pad_2: "pad 2 n = [digit_char (n div 10 mod 10), digit_char (n mod 10)]"
  by (simp add: numeral_2_eq_2)

lemma pad_3:
  "pad 3 n = [digit_char (n div 10 div 10 mod 10), digit_char (n div 10 mod 10),
              digit_char (n mod 10)]"
  by (simp add: numeral_3_eq_3)

lemma pad_add: "pad (j + k) n = pad j (n div 10 ^ k) @ pad k n"
proof (induction k arbitrary: n)
  case 0
  then show ?case by simp
next
  case (Suc k)
  have "pad (j + Suc k) n = pad (j + k) (n div 10) @ [digit_char (n mod 10)]"
    by simp
  also have "\<dots> = pad j (n div 10 div 10 ^ k) @ pad k (n div 10) @ [digit_char (n mod 10)]"
    by (simp add: Suc.IH)
  also have "n div 10 div 10 ^ k = n div 10 ^ Suc k"
    by (simp add: div_mult2_eq)
  finally show ?case by simp
qed

lemma pad_4: "pad 4 n = pad 2 (n div 100) @ pad 2 n"
  using pad_add [of 2 2 n] by simp

lemma pad_6: "pad 6 n = pad 3 (n div 1000) @ pad 3 n"
  using pad_add [of 3 3 n] by simp

lemma pad_head: "\<exists>a rest. a < 10 \<and> pad (Suc k) n = digit_char a # rest"
proof (induction k arbitrary: n)
  case 0
  have "n mod 10 < 10 \<and> pad (Suc 0) n = digit_char (n mod 10) # []" by simp
  then show ?case by blast
next
  case (Suc k)
  from Suc.IH [of "n div 10"] obtain a rest
    where "a < 10" "pad (Suc k) (n div 10) = digit_char a # rest" by blast
  then have "pad (Suc (Suc k)) n = digit_char a # (rest @ [digit_char (n mod 10)])"
    by simp
  with \<open>a < 10\<close> show ?case by blast
qed

subsection \<open>Reading back what \<open>toISOString\<close> writes\<close>

lemma parse_tail:
  assumes "m < 100" "d < 100" "hh < 100" "mm < 100" "ss < 100" "sss < 1000"
  shows "parse_after_year y
           (''-'' @ pad 2 m @ ''-'' @ pad 2 d @ ''T'' @ pad 2 hh @ '':'' @ pad 2 mm @ '':''
            @ pad 2 ss @ ''.'' @ pad 3 sss @ ''Z'') =
         (if 1 \<le> m \<and> m \<le> 12 \<and> 1 \<le> d \<and> d \<le> 31 \<and> hh \<le> 23 \<and> mm \<le> 59 \<and> ss \<le> 59
          then Some (timeClip
                 (86400000 * days_from_civil y (int m) (int d)
                  + int (3600000 * hh + 60000 * mm + 1000 * ss + sss)))
          else None)"
proof -
  have two: "\<And>n. n < 100 \<Longrightarrow> number 0 [digit_char (n div 10 mod 10), digit_char (n mod 10)] = Some n"
    using number_pad_0 [of _ 2] by (simp add: pad_2)
  have three: "\<And>n. n < 1000 \<Longrightarrow>
      number 0 [digit_char (n div 10 div 10 mod 10), digit_char (n div 10 mod 10),
                digit_char (n mod 10)] = Some n"
    using number_pad_0 [of _ 3] by (simp add: pad_3)
  show ?thesis
    unfolding pad_2 pad_3 parse_after_year_def
    by (simp add: two [OF assms(1)] two [OF assms(2)] two [OF assms(3)] two [OF assms(4)]
        two [OF assms(5)] three [OF assms(6)] del: number.simps)
qed

lemma parse_year4:
  assumes "y < 10000"
  shows "parseDate (pad 4 y @ tail) = parse_after_year (int y) tail"
proof -
  have "pad 4 y = pad (Suc 3) y" by simp
  then obtain a rest where a: "a < 10" "pad 4 y = digit_char a # rest"
    using pad_head [of 3 y] by metis
  have n: "number 0 (take 4 (pad 4 y @ tail)) = Some y"
    using assms by (simp add: length_pad number_pad_0)
  have len: "\<not> length (pad 4 y @ tail) < 4" and dr: "drop 4 (pad 4 y @ tail) = tail"
    by (simp_all add: length_pad)
  have "parseDate (digit_char a # rest @ tail) =
          (case number 0 (take 4 (digit_char a # rest @ tail)) of
             None \<Rightarrow> None
           | Some y \<Rightarrow> if length (digit_char a # rest @ tail) < 4 then None
                       else parse_after_year (int y) (drop 4 (digit_char a # rest @ tail)))"
    using digit_char_not_sign [OF a(1)] by (simp add: parseDate_def)
  then show ?thesis
    using n len dr by (simp add: a(2))
qed

lemma parse_year6:
  assumes "y < 1000000" and "sign = CHR ''+'' \<or> (sign = CHR ''-'' \<and> 0 < y)"
  shows "parseDate (sign # pad 6 y @ tail)
           = parse_after_year (if sign = CHR ''-'' then - int y else int y) tail"
  using assms by (auto simp: parseDate_def length_pad number_pad_0)

lemma recombine:
  fixes q p r s :: nat
  shows "3600000 * q + 60000 * p + 1000 * r + s = 1000 * (60 * (60 * q + p) + r) + s"
  by simp

lemma clock_fields:
  fixes ms :: nat
  assumes "ms < 86400000"
  shows "ms div 3600000 \<le> 23" and "ms div 60000 mod 60 \<le> 59" and "ms div 1000 mod 60 \<le> 59"
    and "ms mod 1000 < 1000"
    and "3600000 * (ms div 3600000) + 60000 * (ms div 60000 mod 60)
           + 1000 * (ms div 1000 mod 60) + ms mod 1000 = ms"
proof -
  from assms have "ms div 3600000 < 24"
    by (simp add: less_mult_imp_div_less)
  then show "ms div 3600000 \<le> 23" by simp
  have "ms div 60000 mod 60 < 60" "ms div 1000 mod 60 < 60"
    by simp_all
  then show "ms div 60000 mod 60 \<le> 59" "ms div 1000 mod 60 \<le> 59"
    by simp_all
  show "ms mod 1000 < 1000" by simp
  define a where "a = ms div 1000"
  define b where "b = a div 60"
  have b_eq: "b = ms div 60000"
    by (simp add: b_def a_def div_mult2_eq [symmetric])
  have h_eq: "b div 60 = ms div 3600000"
    by (simp add: b_eq div_mult2_eq [symmetric])
  have "3600000 * (b div 60) + 60000 * (b mod 60) + 1000 * (a mod 60) + ms mod 1000
          = 1000 * (60 * (60 * (b div 60) + b mod 60) + a mod 60) + ms mod 1000"
    by (rule recombine)
  also have "60 * (b div 60) + b mod 60 = b" by simp
  also have "60 * b + a mod 60 = a" by (simp add: b_def)
  also have "1000 * a + ms mod 1000 = ms" by (simp add: a_def)
  finally show "3600000 * (ms div 3600000) + 60000 * (ms div 60000 mod 60)
           + 1000 * (ms div 1000 mod 60) + ms mod 1000 = ms"
    by (simp only: h_eq [symmetric] b_eq [symmetric] a_def [symmetric])
qed

lemma day_bounds:
  fixes t :: int
  assumes "in_range t"
  shows "- 100000000 \<le> t div 86400000" and "t div 86400000 \<le> 100000000"
proof -
  from assms have "\<bar>t\<bar> \<le> 8640000000000000" by (simp add: in_range_def)
  then have "- 100000000 * 86400000 \<le> t" "t \<le> 100000000 * 86400000" by simp_all
  then have "- 100000000 * 86400000 div 86400000 \<le> t div 86400000"
    "t div 86400000 \<le> 100000000 * 86400000 div 86400000"
    by (simp_all only: zdiv_mono1)
  then show "- 100000000 \<le> t div 86400000" and "t div 86400000 \<le> 100000000"
    by simp_all
qed

lemma year_bounds:
  fixes day y :: int
  assumes "- 100000000 \<le> day" "day \<le> 100000000"
    and "400 * ((day + 719468) div 146097) \<le> y" "y \<le> 400 * ((day + 719468) div 146097) + 400"
  shows "- 1000000 < y" and "y < 1000000"
proof -
  from assms(1,2) have "- 146097 * 700 \<le> day + 719468" "day + 719468 \<le> 146097 * 700"
    by simp_all
  then have "- 146097 * 700 div 146097 \<le> (day + 719468) div 146097"
    "(day + 719468) div 146097 \<le> 146097 * 700 div 146097"
    by (simp_all only: zdiv_mono1)
  then have "- 700 \<le> (day + 719468) div 146097" "(day + 719468) div 146097 \<le> 700"
    by simp_all
  with assms(3,4) show "- 1000000 < y" and "y < 1000000"
    by linarith+
qed


text \<open>
  \<^verbatim>\<open>new Date(d.toISOString())\<close> has the time value of \<open>d\<close>, for every time value a
  \<^verbatim>\<open>Date\<close> can hold.
\<close>

lemma parseDate_toISOString:
  assumes "in_range t"
  shows "parseDate (toISOString t) = Some (TimeValue t)"
proof -
  define day where "day = t div 86400000"
  define ms where "ms = nat (t mod 86400000)"
  obtain y m d where c: "civil_from_days day = (y, m, d)"
    by (cases "civil_from_days day") auto
  note r = civil_roundtrip [OF c]
  have m: "1 \<le> m" "m \<le> 12" and d: "1 \<le> d" "d \<le> 31"
    and inv: "days_from_civil y m d = day"
    using r by simp_all
  have y: "- 1000000 < y" "y < 1000000"
    using year_bounds [OF day_bounds [OF assms, folded day_def]] r by simp_all
  have ms: "ms < 86400000" and ms_int: "int ms = t mod 86400000"
    by (simp_all add: ms_def)
  note clock = clock_fields [OF ms]
  have nm: "1 \<le> nat m" "nat m \<le> 12" "1 \<le> nat d" "nat d \<le> 31"
    using m d by linarith+
  define tail where "tail =
     ''-'' @ pad 2 (nat m) @ ''-'' @ pad 2 (nat d) @ ''T''
     @ pad 2 (ms div 3600000) @ '':'' @ pad 2 (ms div 60000 mod 60) @ '':''
     @ pad 2 (ms div 1000 mod 60) @ ''.'' @ pad 3 (ms mod 1000) @ ''Z''"
  have iso: "toISOString t = year_text y @ tail"
    by (simp add: toISOString_def Let_def c [unfolded day_def] ms_def tail_def)
  have "parse_after_year y tail =
          Some (timeClip (86400000 * days_from_civil y (int (nat m)) (int (nat d))
                 + int (3600000 * (ms div 3600000) + 60000 * (ms div 60000 mod 60)
                        + 1000 * (ms div 1000 mod 60) + ms mod 1000)))"
    unfolding tail_def
    using nm clock(1-4) by (subst parse_tail) simp_all
  also have "\<dots> = Some (timeClip (86400000 * day + int ms))"
    using m(1) d(1) by (simp only: clock(5)) (simp add: inv)
  also have "86400000 * day + int ms = t"
    by (simp add: day_def ms_int)
  finally have parsed: "parse_after_year y tail = Some (TimeValue t)"
    using assms by (simp add: timeClip_def)
  consider "0 \<le> y \<and> y \<le> 9999" | "y < 0" | "9999 < y" by linarith
  then have "parseDate (year_text y @ tail) = parse_after_year y tail"
  proof cases
    case 1
    then have "nat y < 10000" by linarith
    from parse_year4 [OF this, of tail] 1 show ?thesis
      by (simp add: year_text_def)
  next
    case 2
    with y have "nat \<bar>y\<bar> < 1000000" "0 < nat \<bar>y\<bar>" by linarith+
    then have "parseDate (CHR ''-'' # pad 6 (nat \<bar>y\<bar>) @ tail)
                 = parse_after_year (- int (nat \<bar>y\<bar>)) tail"
      by (subst parse_year6) simp_all
    with 2 show ?thesis
      by (simp add: year_text_def)
  next
    case 3
    with y have "nat \<bar>y\<bar> < 1000000" by linarith
    then have "parseDate (CHR ''+'' # pad 6 (nat \<bar>y\<bar>) @ tail)
                 = parse_after_year (int (nat \<bar>y\<bar>)) tail"
      by (subst parse_year6) simp_all
    with 3 show ?thesis
      by (simp add: year_text_def)
  qed
  with iso parsed show ?thesis by simp
qed

subsection \<open>Persistence\<close>

lemma changed_conversations:
  "conversations (zenithReducer now state action) \<noteq> conversations state \<Longrightarrow>
   replacesConversations state action"
  by (cases action) (auto split: if_splits)

text \<open>
  C6, amended. After a dispatch that changes the conversation list to a list that is not
  empty, the stored item holds the serialization of the whole new list; after a dispatch
  that changes the credential to a string that is not empty, the stored credential is the
  new one. An empty list and an empty credential are not written: the stored item stays
  as it was.
\<close>

theorem persistence_after_dispatch:
  assumes "dispatch now action (state, storage) = (state', storage')"
  shows "state' = zenithReducer now state action \<and>
         (conversations state' \<noteq> conversations state \<and> conversations state' \<noteq> [] \<longrightarrow>
            zenith_conversations storage' = Some (stringify (conversations state'))) \<and>
         (conversations state' = [] \<longrightarrow>
            zenith_conversations storage' = zenith_conversations storage) \<and>
         (apiKey state' \<noteq> apiKey state \<and> apiKey state' \<noteq> [] \<longrightarrow>
            zenith_api_key storage' = Some (apiKey state')) \<and>
         (apiKey state' = [] \<longrightarrow> zenith_api_key storage' = zenith_api_key storage)"
proof -
  from assms have state': "state' = zenithReducer now state action"
    by (auto simp: dispatch_def Let_def)
  from assms have storage':
    "storage' =
       (let storage1 = (if replacesConversations state action
                        then saveConversations state' storage else storage)
        in if apiKey state' \<noteq> apiKey state then saveApiKey state' storage1 else storage1)"
    by (auto simp: dispatch_def Let_def)
  have c1: "conversations state' \<noteq> conversations state \<Longrightarrow> replacesConversations state action"
    unfolding state' by (rule changed_conversations)
  show ?thesis
    using c1 by (auto simp: state' [symmetric] storage' saveConversations_def saveApiKey_def Let_def)
qed

theorem persistence_after_dispatch_witness:
  "dispatch (TimeValue 9) (SET_API_KEY ''k2'') (two_conversations, key_only)
   = (two_conversations \<lparr> apiKey := ''k2'' \<rparr>,
      \<lparr> zenith_conversations = None, zenith_api_key = Some ''k2'' \<rparr>) \<and>
   zenith_conversations
     (snd (dispatch (TimeValue 9) CLEAR_CONVERSATION (two_conversations, key_only)))
   = Some (stringify (conversations (clearConversation (TimeValue 9) two_conversations)))"
  using persistence_after_dispatch [of "TimeValue 9" "SET_API_KEY ''k2''" two_conversations
      key_only "two_conversations \<lparr> apiKey := ''k2'' \<rparr>"
      "\<lparr> zenith_conversations = None, zenith_api_key = Some ''k2'' \<rparr>"]
    persistence_after_dispatch [of "TimeValue 9" CLEAR_CONVERSATION two_conversations
      key_only
      "fst (dispatch (TimeValue 9) CLEAR_CONVERSATION (two_conversations, key_only))"
      "snd (dispatch (TimeValue 9) CLEAR_CONVERSATION (two_conversations, key_only))"]
  by (simp add: dispatch_def saveApiKey_def saveConversations_def clearConversation_def
      two_conversations_def clear_conversation_def key_only_def)

text \<open>
  C6, as stated, fails: setting the credential to the empty string changes it in the
  state, and the stored credential is still the old one.
\<close>

theorem empty_credential_not_written:
  "apiKey two_conversations = ''k'' \<and>
   apiKey (fst (dispatch (TimeValue 9) (SET_API_KEY []) (two_conversations, key_only))) = [] \<and>
   zenith_api_key (snd (dispatch (TimeValue 9) (SET_API_KEY []) (two_conversations, key_only)))
     = Some ''k''"
  by (simp add: dispatch_def saveApiKey_def two_conversations_def key_only_def)

subsection \<open>Rehydration\<close>

lemma parse_saved_list:
  "parseConversations saved_list = Some [loaded_first, loaded_second]"
  by (simp add: saved_list_def parseConversations_def parseConversation_def parseMessage_def
      field_def parseDate_def parse_after_year_def digit_value_def days_from_civil_def
      timeClip_def in_range_def loaded_first_def loaded_second_def)

text \<open>
  C10. At start-up, when the stored conversation list is read and is not empty, its first
  conversation becomes the active one; when there is no stored list, the active id stays
  \<^verbatim>\<open>null\<close> and the list stays empty.
\<close>

theorem rehydrate_active:
  "(zenith_conversations storage = Some saved \<and>
    parseConversations saved = Some (first # others) \<longrightarrow>
      map_option activeConversationId (rehydrate now storage (initialState env_key))
        = Some (Some (conversation_id first)) \<and>
      map_option conversations (rehydrate now storage (initialState env_key))
        = Some (first # others))
   \<and> (zenith_conversations storage = None \<longrightarrow>
      map_option activeConversationId (rehydrate now storage (initialState env_key))
        = Some None \<and>
      map_option conversations (rehydrate now storage (initialState env_key)) = Some [])"
  by (simp add: rehydrate_def initialState_def Let_def)

theorem rehydrate_active_witness:
  "map_option activeConversationId
     (rehydrate (TimeValue 9) \<lparr> zenith_conversations = Some saved_list, zenith_api_key = None \<rparr>
        (initialState None)) = Some (Some ''a'') \<and>
   map_option activeConversationId (rehydrate (TimeValue 9) key_only (initialState None))
     = Some None"
  using rehydrate_active [of "\<lparr> zenith_conversations = Some saved_list, zenith_api_key = None \<rparr>"
      saved_list loaded_first "[loaded_second]" "TimeValue 9" None]
    rehydrate_active [of key_only saved_list loaded_first "[loaded_second]" "TimeValue 9" None]
  by (simp add: parse_saved_list key_only_def loaded_first_def)

subsection \<open>Serializing and reconstructing\<close>

lemma newDate_date_json: "date_ok d \<Longrightarrow> newDate (Some (date_json d)) = Some (revived d)"
  by (cases d) (simp_all add: date_ok_def date_json_def revived_def parseDate_toISOString)

lemma those_map:
  "(\<And>x. x \<in> set xs \<Longrightarrow> f x = Some (g x)) \<Longrightarrow> those (map f xs) = Some (map g xs)"
  by (induction xs) simp_all

lemma parseMessage_message_json:
  assumes "date_ok (message_createdAt m)"
  shows "parseMessage (message_json m) = Some (m \<lparr> message_createdAt := revived (message_createdAt m) \<rparr>)"
  using newDate_date_json [OF assms]
  by (cases "role m") (simp_all add: parseMessage_def message_json_def field_def role_json_def)

lemma parseConversation_conversation_json:
  assumes "date_ok (createdAt c)" "date_ok (updatedAt c)"
    and "\<And>m. m \<in> set (messages c) \<Longrightarrow> date_ok (message_createdAt m)"
  shows "parseConversation (conversation_json c) = Some (reloaded c)"
proof -
  have "those (map parseMessage (map message_json (messages c))) =
          Some (map (\<lambda>m. m \<lparr> message_createdAt := revived (message_createdAt m) \<rparr>) (messages c))"
    unfolding map_map comp_def
    by (rule those_map) (simp add: parseMessage_message_json assms(3))
  then show ?thesis
    using newDate_date_json [OF assms(1)] newDate_date_json [OF assms(2)]
    by (simp add: parseConversation_def conversation_json_def field_def reloaded_def)
qed

lemma parse_stringify:
  assumes "\<And>c. c \<in> set cs \<Longrightarrow>
             date_ok (createdAt c) \<and> date_ok (updatedAt c) \<and>
             (\<forall>m \<in> set (messages c). date_ok (message_createdAt m))"
  shows "parseConversations (stringify cs) = Some (map reloaded cs)"
  unfolding parseConversations_def stringify_def json.case map_map comp_def
  by (rule those_map) (simp add: parseConversation_conversation_json assms)

lemma instant_date_ok: "instant d \<Longrightarrow> date_ok d"
  by (cases d) (simp_all add: instant_def date_ok_def)

lemma instant_revived: "instant d \<Longrightarrow> revived d = d"
  by (cases d) (simp_all add: instant_def revived_def)

text \<open>When every date of the list denotes an instant, the list comes back as it was.\<close>

lemma parse_stringify_same:
  assumes "\<And>c. c \<in> set cs \<Longrightarrow>
             instant (createdAt c) \<and> instant (updatedAt c) \<and>
             (\<forall>m \<in> set (messages c). instant (message_createdAt m))"
  shows "parseConversations (stringify cs) = Some cs"
proof -
  have "parseConversations (stringify cs) = Some (map reloaded cs)"
    by (rule parse_stringify) (simp add: assms instant_date_ok)
  moreover have "map reloaded cs = cs"
  proof (rule map_idI)
    fix c assume c: "c \<in> set cs"
    have "map (\<lambda>m. m \<lparr> message_createdAt := revived (message_createdAt m) \<rparr>) (messages c)
            = messages c"
      by (rule map_idI) (use assms [OF c] in \<open>simp add: instant_revived\<close>)
    then show "reloaded c = c"
      using assms [OF c] by (simp add: reloaded_def instant_revived)
  qed
  ultimately show ?thesis by simp
qed

text \<open>
  C7. Serializing a conversation list and reconstructing it, as the start-up does, gives
  conversations with the same ids, the same message ids, roles and contents, and the same
  \<^verbatim>\<open>createdAt\<close> and \<^verbatim>\<open>updatedAt\<close>, for every list whose \<^verbatim>\<open>createdAt\<close> and \<^verbatim>\<open>updatedAt\<close>
  denote instants. When the \<^verbatim>\<open>createdAt\<close> of every message denotes an instant too, every
  message comes back with the same \<^verbatim>\<open>createdAt\<close>, and the reconstructed list is the list
  that was serialized.
\<close>

theorem stringify_roundtrip:
  assumes "\<forall>c \<in> set cs. instant (createdAt c) \<and> instant (updatedAt c) \<and>
             (\<forall>m \<in> set (messages c). date_ok (message_createdAt m))"
  shows "map_option (map conversation_id) (parseConversations (stringify cs))
           = Some (map conversation_id cs) \<and>
         map_option (map (\<lambda>c. map message_id (messages c))) (parseConversations (stringify cs))
           = Some (map (\<lambda>c. map message_id (messages c)) cs) \<and>
         map_option (map (\<lambda>c. map role (messages c))) (parseConversations (stringify cs))
           = Some (map (\<lambda>c. map role (messages c)) cs) \<and>
         map_option (map (\<lambda>c. map content (messages c))) (parseConversations (stringify cs))
           = Some (map (\<lambda>c. map content (messages c)) cs) \<and>
         map_option (map createdAt) (parseConversations (stringify cs))
           = Some (map createdAt cs) \<and>
         map_option (map updatedAt) (parseConversations (stringify cs))
           = Some (map updatedAt cs) \<and>
         ((\<forall>c \<in> set cs. \<forall>m \<in> set (messages c). instant (message_createdAt m)) \<longrightarrow>
            map_option (map (\<lambda>c. map message_createdAt (messages c)))
              (parseConversations (stringify cs))
              = Some (map (\<lambda>c. map message_createdAt (messages c)) cs) \<and>
            parseConversations (stringify cs) = Some cs)"
proof -
  have parsed: "parseConversations (stringify cs) = Some (map reloaded cs)"
    by (rule parse_stringify) (use assms in \<open>simp add: instant_date_ok\<close>)
  have "map createdAt (map reloaded cs) = map createdAt cs"
    "map updatedAt (map reloaded cs) = map updatedAt cs"
    using assms by (simp_all add: reloaded_def instant_revived)
  moreover have "map conversation_id (map reloaded cs) = map conversation_id cs"
    "map (\<lambda>c. map message_id (messages c)) (map reloaded cs)
       = map (\<lambda>c. map message_id (messages c)) cs"
    "map (\<lambda>c. map role (messages c)) (map reloaded cs) = map (\<lambda>c. map role (messages c)) cs"
    "map (\<lambda>c. map content (messages c)) (map reloaded cs)
       = map (\<lambda>c. map content (messages c)) cs"
    by (simp_all add: reloaded_def comp_def)
  ultimately have fields:
    "map_option (map conversation_id) (parseConversations (stringify cs))
       = Some (map conversation_id cs) \<and>
     map_option (map (\<lambda>c. map message_id (messages c))) (parseConversations (stringify cs))
       = Some (map (\<lambda>c. map message_id (messages c)) cs) \<and>
     map_option (map (\<lambda>c. map role (messages c))) (parseConversations (stringify cs))
       = Some (map (\<lambda>c. map role (messages c)) cs) \<and>
     map_option (map (\<lambda>c. map content (messages c))) (parseConversations (stringify cs))
       = Some (map (\<lambda>c. map content (messages c)) cs) \<and>
     map_option (map createdAt) (parseConversations (stringify cs))
       = Some (map createdAt cs) \<and>
     map_option (map updatedAt) (parseConversations (stringify cs))
       = Some (map updatedAt cs)"
    by (simp add: parsed)
  have whole: "parseConversations (stringify cs) = Some cs"
    if "\<forall>c \<in> set cs. \<forall>m \<in> set (messages c). instant (message_createdAt m)"
    by (rule parse_stringify_same) (use assms that in simp)
  from fields whole show ?thesis
    by simp
qed

theorem stringify_roundtrip_witness:
  "instant (createdAt loaded_first) \<and> instant (updatedAt loaded_first) \<and>
   instant (message_createdAt (hd (messages loaded_first))) \<and>
   instant (createdAt loaded_second) \<and> instant (updatedAt loaded_second) \<and>
   map_option (map conversation_id) (parseConversations (stringify [loaded_first, loaded_second]))
     = Some [''a'', ''b''] \<and>
   map_option (map (\<lambda>c. map content (messages c)))
     (parseConversations (stringify [loaded_first, loaded_second])) = Some [[''hello''], []] \<and>
   map_option (map createdAt) (parseConversations (stringify [loaded_first, loaded_second]))
     = Some [TimeValue 1700000000000, TimeValue 0] \<and>
   map_option (map (\<lambda>c. map message_createdAt (messages c)))
     (parseConversations (stringify [loaded_first, loaded_second]))
     = Some [[TimeValue 1700000000123], []] \<and>
   parseConversations (stringify [loaded_first, loaded_second])
     = Some [loaded_first, loaded_second]"
  using stringify_roundtrip [of "[loaded_first, loaded_second]"]
  by (simp add: loaded_first_def loaded_second_def instant_def date_ok_def in_range_def)

text \<open>Some dates as \<^verbatim>\<open>toISOString\<close> writes them, and a list as it is stored.\<close>

lemma toISOString_examples:
  "toISOString 1700000000123 = ''2023-11-14T22:13:20.123Z''"
  "toISOString 1700000000000 = ''2023-11-14T22:13:20.000Z''"
  "toISOString 1700000001000 = ''2023-11-14T22:13:21.000Z''"
  "toISOString 0 = ''1970-01-01T00:00:00.000Z''"
  "toISOString (- 1) = ''1969-12-31T23:59:59.999Z''"
  "toISOString 951782400000 = ''2000-02-29T00:00:00.000Z''"
  "toISOString 4107542400000 = ''2100-03-01T00:00:00.000Z''"
  "toISOString 8640000000000000 = ''+275760-09-13T00:00:00.000Z''"
  "toISOString (- 8640000000000000) = ''-271821-04-20T00:00:00.000Z''"
  unfolding toISOString_def civil_from_days_def Let_def
  by (simp_all add: year_text_def pad_2 pad_3 pad_4 pad_6 digit_char_def)

lemma stringify_example:
  "stringify [loaded_first, loaded_second \<lparr> updatedAt := InvalidDate \<rparr>] = saved_list"
  by (simp add: stringify_def conversation_json_def message_json_def date_json_def role_json_def
      loaded_first_def loaded_second_def saved_list_def toISOString_examples)

end
